theory Spec2Isabelle
  imports Main "HOL-Library.Sublist"
begin

section \<open>The Python objects the cast operators of \<open>expression.core.typing\<close> work on\<close>

text \<open>
  The three operations \<open>upcast\<close>, \<open>downcast\<close> and \<open>try_downcast\<close> take a type token and
  a value. A Python value is a reference to an object on the heap; its identity is the
  address, and what \<open>isinstance\<close> and \<open>str\<close> say about it is read from the object.
  The operations are modelled with the heap passed in and handed back, so that "returns
  the same value, unmodified" and "retains no state" are statements about the model.
\<close>

type_synonym addr = nat

text \<open>
  A class object: its qualified name, the names of the classes of its \<open>__mro__\<close> (the
  class itself first), and, for an abstract base class, the names of the classes
  registered as virtual subclasses of it or of one of its subclasses (empty for a class
  whose metaclass is \<open>type\<close>).
\<close>

record pytype =
  tp_name :: string
  tp_mro :: "string list"
  abc_registry :: "string list"

text \<open>An object: its class, the text \<open>str()\<close> gives for it, and its content.\<close>

record 'a pyobj =
  ob_type :: pytype
  ob_str :: string
  ob_val :: 'a

type_synonym 'a heap = "addr \<Rightarrow> 'a pyobj"

text \<open>
  What a caller can pass as the type token:
  \<^item> \<open>NoneObj\<close>: the object \<open>None\<close>;
  \<^item> \<open>Class c\<close>: a class whose metaclass answers instance checks (\<open>type\<close>, \<open>ABCMeta\<close>);
  \<^item> \<open>Alias origin args\<close>: a parameterized generic such as \<open>List[int]\<close> or \<open>Sequence[str]\<close>;
  \<^item> \<open>Uncheckable n\<close>: any other object, printed as \<open>n\<close>, that \<open>isinstance\<close> rejects with
    \<open>TypeError\<close>: \<open>typing.Any\<close>, a type variable, a \<open>Protocol\<close> class that is not
    \<open>@runtime_checkable\<close> (the five protocols of this module are of that kind).
\<close>

datatype tytoken =
    NoneObj
  | Class pytype
  | Alias tytoken "tytoken list"
  | Uncheckable string

datatype pyerr = AssertionError string | TypeError

text \<open>An operation takes the heap and returns an exception or a result, and the heap.\<close>

type_synonym ('a, 'r) py = "'a heap \<Rightarrow> (pyerr + 'r) \<times> 'a heap"

subsection \<open>The builtins the module calls\<close>

text \<open>
  \<open>issubclass(sub, cls)\<close>: \<open>cls\<close> is in the \<open>__mro__\<close> of \<open>sub\<close>, or a class registered
  with the abstract base class \<open>cls\<close> is.
\<close>

definition issubclass :: "pytype \<Rightarrow> pytype \<Rightarrow> bool" where
  "issubclass sub cls \<longleftrightarrow>
     tp_name cls \<in> set (tp_mro sub) \<or>
     list_ex (\<lambda>r. r \<in> set (tp_mro sub)) (abc_registry cls)"

text \<open>
  \<open>isinstance(obj, tok)\<close>: for a class, the exact-type test first and then the subclass
  test on the type of the object; \<open>TypeError\<close> for a parameterized generic ("Subscripted
  generics cannot be used with class and instance checks") and for every token that is
  not a class.
\<close>

fun isinstance :: "'a heap \<Rightarrow> addr \<Rightarrow> tytoken \<Rightarrow> pyerr + bool" where
  "isinstance h obj (Class cls) =
     Inr (tp_name (ob_type (h obj)) = tp_name cls \<or> issubclass (ob_type (h obj)) cls)"
| "isinstance h obj (Alias origin args) = Inl TypeError"
| "isinstance h obj NoneObj = Inl TypeError"
| "isinstance h obj (Uncheckable n) = Inl TypeError"

text \<open>\<open>typing.get_origin\<close>: the unparameterized origin of a parameterized generic, else \<open>None\<close>.\<close>

fun get_origin :: "tytoken \<Rightarrow> tytoken option" where
  "get_origin (Alias origin args) = Some origin"
| "get_origin NoneObj = None"
| "get_origin (Class cls) = None"
| "get_origin (Uncheckable n) = None"

text \<open>
  \<open>str()\<close> of a type token, as the f-string of \<open>downcast\<close> formats it: a class prints as
  \<open><class 'name'>\<close>, a parameterized generic as \<open>origin[arg, ...]\<close> with classes named
  plainly. Only a class is ever formatted there: for every other token \<open>isinstance\<close>
  raises before the message is built.
\<close>

fun commas :: "string list \<Rightarrow> string" where
  "commas [] = []"
| "commas [s] = s"
| "commas (s # t # ss) = s @ '', '' @ commas (t # ss)"

fun type_repr :: "tytoken \<Rightarrow> string" where
  "type_repr NoneObj = ''None''"
| "type_repr (Class cls) = tp_name cls"
| "type_repr (Alias origin args) = type_repr origin @ ''['' @ commas (map type_repr args) @ '']''"
| "type_repr (Uncheckable n) = n"

fun tok_str :: "tytoken \<Rightarrow> string" where
  "tok_str (Class cls) = ''<class '' @ [CHR 0x27] @ tp_name cls @ [CHR 0x27] @ ''>''"
| "tok_str t = type_repr t"

section \<open>The cast operators\<close>

text \<open>
  \<^verbatim>\<open>
  def upcast(type: Type[_Base], expr: _Base) -> _Base:
      return expr
  \<close>
\<close>

definition upcast :: "tytoken \<Rightarrow> addr \<Rightarrow> ('a, addr) py" where
  "upcast type expr h = (Inr expr, h)"

text \<open>
  \<^verbatim>\<open>
  def downcast(type: Type[_Derived], expr: Any) -> _Derived:
      assert isinstance(
          expr, type
      ), f"The type of expression {expr} is not a supertype of {type}"
      return cast(_Derived, expr)
  \<close>
  The \<open>assert\<close> statement is modelled as the interpreter runs it by default
  (\<open>__debug__\<close> true): a false condition raises \<open>AssertionError\<close> with the formatted
  message. An exception of \<open>isinstance\<close> itself leaves the function before the message
  is built. \<open>typing.cast\<close> returns its second argument.
\<close>

definition downcast :: "tytoken \<Rightarrow> addr \<Rightarrow> ('a, addr) py" where
  "downcast type expr h =
     (case isinstance h expr type of
        Inl e \<Rightarrow> (Inl e, h)
      | Inr ok \<Rightarrow>
          if ok then (Inr expr, h)
          else (Inl (AssertionError
                  (''The type of expression '' @ ob_str (h expr) @
                   '' is not a supertype of '' @ tok_str type)), h))"

text \<open>
  \<^verbatim>\<open>
  def try_downcast(type_: Type[_Derived], expr: Any) -> Optional[_Derived]:
      origin: Optional[Type[_Derived]] = get_origin(type_) or type_
      if origin is not None and isinstance(expr, origin):
          derived = cast(_Derived, expr)
          return derived

      return None
  \<close>
  \<open>get_origin(type_) or type_\<close> is \<open>type_\<close> when \<open>get_origin\<close> gives \<open>None\<close>. The \<open>and\<close> does
  not call \<open>isinstance\<close> when the origin is \<open>None\<close>; the function has no handler, so an
  exception of \<open>isinstance\<close> leaves it.
\<close>

definition try_downcast :: "tytoken \<Rightarrow> addr \<Rightarrow> ('a, addr option) py" where
  "try_downcast type' expr h =
     (let origin = (case get_origin type' of Some t \<Rightarrow> t | None \<Rightarrow> type') in
      if origin \<noteq> NoneObj then
        (case isinstance h expr origin of
           Inl e \<Rightarrow> (Inl e, h)
         | Inr ok \<Rightarrow> if ok then (Inr (Some expr), h) else (Inr None, h))
      else (Inr None, h))"

text \<open>
  A nested call \<open>g(T, f(B, v))\<close>: the inner call runs first; its exception leaves the
  whole expression, its result and heap go to the outer call.
\<close>

definition py_bind :: "('a, 'r) py \<Rightarrow> ('r \<Rightarrow> ('a, 's) py) \<Rightarrow> ('a, 's) py" where
  "py_bind m f h = (case m h of (Inl e, h1) \<Rightarrow> (Inl e, h1) | (Inr x, h1) \<Rightarrow> f x h1)"

section \<open>The vocabulary of the specification\<close>

text \<open>
  The token the runtime check of \<open>try_downcast\<close> is made against: the origin of a
  parameterized generic, the token itself otherwise.
\<close>

definition origin_of :: "tytoken \<Rightarrow> tytoken" where
  "origin_of t = (case get_origin t of Some t' \<Rightarrow> t' | None \<Rightarrow> t)"



section \<open>A concrete world: the scenario of the specification\<close>

text \<open>
  The builtin classes \<open>object\<close>, \<open>int\<close>, \<open>list\<close> and \<open>NoneType\<close>, the abstract base class
  \<open>collections.abc.Sequence\<close> with the builtin sequences registered with it or with its
  subclass \<open>MutableSequence\<close>, and the classes of the end-to-end scenario: a base
  \<open>Shape\<close> with the derived classes \<open>Circle\<close> and \<open>Square\<close>.
\<close>

definition int_t :: pytype where
  "int_t = \<lparr>tp_name = ''int'', tp_mro = [''int'', ''object''], abc_registry = []\<rparr>"

definition list_t :: pytype where
  "list_t = \<lparr>tp_name = ''list'', tp_mro = [''list'', ''object''], abc_registry = []\<rparr>"

definition NoneType :: pytype where
  "NoneType = \<lparr>tp_name = ''NoneType'', tp_mro = [''NoneType'', ''object''], abc_registry = []\<rparr>"

definition Sequence_t :: pytype where
  "Sequence_t =
     \<lparr>tp_name = ''collections.abc.Sequence'',
      tp_mro = [''collections.abc.Sequence'', ''collections.abc.Reversible'',
                ''collections.abc.Collection'', ''collections.abc.Sized'',
                ''collections.abc.Iterable'', ''collections.abc.Container'', ''object''],
      abc_registry = [''tuple'', ''str'', ''range'', ''memoryview'', ''list'', ''bytearray'']\<rparr>"

definition Shape :: pytype where
  "Shape = \<lparr>tp_name = ''Shape'', tp_mro = [''Shape'', ''object''], abc_registry = []\<rparr>"

definition Circle :: pytype where
  "Circle = \<lparr>tp_name = ''Circle'', tp_mro = [''Circle'', ''Shape'', ''object''], abc_registry = []\<rparr>"

definition Square :: pytype where
  "Square = \<lparr>tp_name = ''Square'', tp_mro = [''Square'', ''Shape'', ''object''], abc_registry = []\<rparr>"



text \<open>The contents of the objects of the example heap.\<close>

datatype pyval = IntVal int | StrList "string list" | Attrs "(string \<times> int) list" | NoVal

text \<open>
  The heap: at address 0 the object \<open>Circle(radius=5)\<close>, at 1 the integer \<open>5\<close>, at 2 the
  list \<open>['a', 'b']\<close> of strings, and \<open>None\<close> everywhere else.
\<close>

definition heap0 :: "pyval heap" where
  "heap0 a =
     (if a = 0 then \<lparr>ob_type = Circle, ob_str = ''Circle(radius=5)'', ob_val = Attrs [(''radius'', 5)]\<rparr>
      else if a = 1 then \<lparr>ob_type = int_t, ob_str = ''5'', ob_val = IntVal 5\<rparr>
      else if a = 2 then \<lparr>ob_type = list_t, ob_str = ''['a', 'b']'', ob_val = StrList [''a'', ''b'']\<rparr>
      else \<lparr>ob_type = NoneType, ob_str = ''None'', ob_val = NoVal\<rparr>)"


section \<open>Properties\<close>

subsection \<open>What the two checked casts compute\<close>

lemmas world = int_t_def list_t_def NoneType_def Sequence_t_def Shape_def Circle_def Square_def
  heap0_def

lemma downcast_Class:
  "downcast (Class c) v h =
     (if tp_name (ob_type (h v)) = tp_name c \<or> issubclass (ob_type (h v)) c then (Inr v, h)
      else (Inl (AssertionError (''The type of expression '' @ ob_str (h v) @
              '' is not a supertype of '' @ tok_str (Class c))), h))"
  by (simp add: downcast_def)



lemma downcast_Inr:
  "downcast T v h = (Inr r, h') \<longleftrightarrow> r = v \<and> h' = h \<and> isinstance h v T = Inr True"
  by (cases T) (auto simp: downcast_def)

lemma try_downcast_origin:
  "try_downcast T v h =
     (case origin_of T of
        NoneObj \<Rightarrow> (Inr None, h)
      | Class c \<Rightarrow>
          (Inr (if tp_name (ob_type (h v)) = tp_name c \<or> issubclass (ob_type (h v)) c
                then Some v else None), h)
      | Alias t ts \<Rightarrow> (Inl TypeError, h)
      | Uncheckable n \<Rightarrow> (Inl TypeError, h))"
  by (cases T; simp add: try_downcast_def origin_of_def Let_def split: tytoken.splits)


lemma try_downcast_Some:
  "try_downcast T v h = (Inr (Some r), h') \<longleftrightarrow>
     r = v \<and> h' = h \<and> isinstance h v (origin_of T) = Inr True"
  by (cases "origin_of T") (auto simp: try_downcast_origin)



subsection \<open>\<open>downcast\<close>\<close>






subsection \<open>\<open>try_downcast\<close>\<close>







text \<open>
  C4. Generic-parameter erasure: for a parameterized generic over a class, \<open>try_downcast\<close>
  checks against the unparameterized origin, so the arguments do not matter.
  \<open>try_downcast(Sequence[...], s)\<close> is present for every sequence \<open>s\<close> whatever its elements
  are, as for the list of strings with \<open>Sequence[int]\<close>; with a parameterized \<open>Sequence\<close>
  target the integer \<open>5\<close> gives \<open>None\<close>.
\<close>

theorem try_downcast_erases_arguments:
  "try_downcast (Alias (Class c) args) v h = try_downcast (Class c) v h \<and>
   (issubclass (ob_type (h s)) Sequence_t \<longrightarrow>
      try_downcast (Alias (Class Sequence_t) args) s h = (Inr (Some s), h)) \<and>
   try_downcast (Alias (Class Sequence_t) [Class int_t]) 2 heap0 = (Inr (Some 2), heap0) \<and>
   try_downcast (Alias (Class Sequence_t) args) 1 heap0 = (Inr None, heap0)"
proof (intro conjI impI)
  show "try_downcast (Alias (Class c) args) v h = try_downcast (Class c) v h"
    by (simp add: try_downcast_origin origin_of_def)
  show "try_downcast (Alias (Class Sequence_t) args) s h = (Inr (Some s), h)"
    if "issubclass (ob_type (h s)) Sequence_t"
    using that by (simp add: try_downcast_origin origin_of_def)
  show "try_downcast (Alias (Class Sequence_t) [Class int_t]) 2 heap0 = (Inr (Some 2), heap0)"
    by (simp add: try_downcast_origin origin_of_def issubclass_def world)
  show "try_downcast (Alias (Class Sequence_t) args) 1 heap0 = (Inr None, heap0)"
    by (simp add: try_downcast_origin origin_of_def issubclass_def world)
qed

theorem try_downcast_erases_arguments_witness:
  "issubclass (ob_type (heap0 2)) Sequence_t \<and>
   try_downcast (Alias (Class Sequence_t) [Alias (Class list_t) [Class int_t]]) 2 heap0
     = (Inr (Some 2), heap0)"
proof -
  have a: "issubclass (ob_type (heap0 2)) Sequence_t"
    by (simp add: issubclass_def world)
  from try_downcast_erases_arguments
         [of int_t "[Alias (Class list_t) [Class int_t]]" 0 heap0 2] a
  show ?thesis by blast
qed



subsection \<open>The three operations together\<close>

text \<open>
  C6. Neither checked cast fabricates a value: when \<open>downcast\<close> returns, or \<open>try_downcast\<close>
  returns a present result, the result is the reference that was passed in, the heap is
  the one that was passed in, and the instance check (against the target for \<open>downcast\<close>,
  against its origin for \<open>try_downcast\<close>) holds of the value.
\<close>

theorem casts_never_fabricate:
  "(downcast T v h = (Inr r, h') \<longrightarrow> r = v \<and> h' = h \<and> isinstance h v T = Inr True) \<and>
   (try_downcast T v h = (Inr (Some r), h') \<longrightarrow>
      r = v \<and> h' = h \<and> isinstance h v (origin_of T) = Inr True)"
  by (simp add: downcast_Inr try_downcast_Some)

theorem casts_never_fabricate_witness:
  "downcast (Class Shape) 0 heap0 = (Inr 0, heap0) \<and>
   isinstance heap0 0 (Class Shape) = Inr True \<and>
   try_downcast (Alias (Class Sequence_t) [Class int_t]) 2 heap0 = (Inr (Some 2), heap0) \<and>
   isinstance heap0 2 (origin_of (Alias (Class Sequence_t) [Class int_t])) = Inr True"
proof -
  have a: "downcast (Class Shape) 0 heap0 = (Inr 0, heap0)"
    by (simp add: downcast_Class issubclass_def world)
  have b: "try_downcast (Alias (Class Sequence_t) [Class int_t]) 2 heap0 = (Inr (Some 2), heap0)"
    by (simp add: try_downcast_origin origin_of_def issubclass_def world)
  from casts_never_fabricate [of "Class Shape" 0 heap0 0 heap0] a
    casts_never_fabricate [of "Alias (Class Sequence_t) [Class int_t]" 2 heap0 2 heap0] b
  show ?thesis by blast
qed



text \<open>
  C10. Round trip: when the value is a runtime instance of \<open>T\<close>, then for every token \<open>B\<close>
  the call \<open>downcast(T, upcast(B, v))\<close> returns \<open>v\<close> itself.
\<close>

theorem upcast_then_downcast:
  "isinstance h v T = Inr True \<Longrightarrow> py_bind (upcast B v) (downcast T) h = (Inr v, h)"
  by (simp add: py_bind_def upcast_def downcast_Inr)

theorem upcast_then_downcast_witness:
  "isinstance heap0 0 (Class Circle) = Inr True \<and>
   py_bind (upcast (Class Shape) 0) (downcast (Class Circle)) heap0 = (Inr 0, heap0)"
proof -
  have a: "isinstance heap0 0 (Class Circle) = Inr True"
    by (simp add: world)
  from upcast_then_downcast [OF a, of "Class Shape"] a show ?thesis
    by blast
qed

subsection \<open>\<open>upcast\<close>\<close>

text \<open>
  C5. \<open>upcast\<close> is the identity on its value argument and total: for every value and
  every target token it returns the very same reference, whatever the object is (no
  runtime check), never raises, and leaves the heap as it was.
\<close>

theorem upcast_identity: "upcast B v h = (Inr v, h)"
  by (simp add: upcast_def)

end
